theory Spec2Isabelle
  imports Complex_Main "HOL-Library.Multiset"
begin

section \<open>Python values used by the scoring engine\<close>

text \<open>
  A Python \<open>float\<close> is modelled by the rational number it denotes (\<^typ>\<open>rat\<close>), with exact
  arithmetic. Every sub-score of \<open>core/scoring.py\<close> is built from the constants 5.0, 10.0,
  8.5, ... by adding and subtracting multiples of 0.5 of magnitude below 32; on these values
  binary floating point is exact, so the model and the program agree on them. The inputs of
  type \<open>float\<close> only enter through comparisons with constants and through the text of the
  annotations. Not-a-number, the infinities and the negative zero have no counterpart here,
  and neither has the \<open>OverflowError\<close> of dividing an integer beyond the range of a float.
  Python's \<open>int\<close> is \<^typ>\<open>int\<close>, \<open>str\<close> is \<^typ>\<open>string\<close>, \<open>Optional[T]\<close> is
  \<^typ>\<open>'a option\<close> and \<open>None\<close> is \<^const>\<open>None\<close>.

  Two places compute with values that are not binary fractions: the weighted total, whose
  weights 0.20, 0.45 and 0.10 the program holds as approximations, and the text that a
  format specification prints for a quotient such as 129 / 60. There the model rounds the
  exact value and the program its approximation; the two can differ only when the exact
  value is a tie of the rounding. The statements below do not depend on how such a tie is
  rounded. The comparisons of \<open>duration_minutes / 60\<close> with the band limits are not affected:
  a whole number of minutes is at least a sixtieth of an hour away from a limit it differs
  from.
\<close>

text \<open>Rounding to the nearest integer, ties to the even one (Python's rounding rule).\<close>

definition round_half_even :: "rat \<Rightarrow> int" where
  "round_half_even x =
     (let f = \<lfloor>x\<rfloor>; d = x - of_int f
      in if d < 1 / 2 then f
         else if 1 / 2 < d then f + 1
         else if even f then f else f + 1)"

text \<open>\<open>round(x, 1)\<close>\<close>

definition py_round1 :: "rat \<Rightarrow> rat" where
  "py_round1 x = of_int (round_half_even (x * 10)) / 10"

text \<open>\<open>str(n)\<close> for an integer: the decimal digits, with a minus sign when negative.\<close>

definition digit_char :: "nat \<Rightarrow> char" where
  "digit_char d = char_of (48 + d)"

fun str_nat :: "nat \<Rightarrow> string" where
  "str_nat n = (if n < 10 then [digit_char n] else str_nat (n div 10) @ [digit_char (n mod 10)])"

declare str_nat.simps [simp del]

definition str_int :: "int \<Rightarrow> string" where
  "str_int i = (if i < 0 then CHR ''-'' # str_nat (nat (- i)) else str_nat (nat i))"

text \<open>The format specifications \<open>:.0f\<close> and \<open>:.1f\<close> of an f-string.\<close>

definition fmt0 :: "rat \<Rightarrow> string" where
  "fmt0 x = (if x < 0 then ''-'' else []) @ str_nat (nat (round_half_even \<bar>x\<bar>))"

definition fmt1 :: "rat \<Rightarrow> string" where
  "fmt1 x =
     (let n = nat (round_half_even (\<bar>x\<bar> * 10))
      in (if x < 0 then ''-'' else []) @ str_nat (n div 10) @ ''.'' @ str_nat (n mod 10))"

text \<open>\<open>str.lower()\<close>, on the ASCII letters.\<close>

definition lower_char :: "char \<Rightarrow> char" where
  "lower_char c =
     (let n = (of_char c :: nat) in if 65 \<le> n \<and> n \<le> 90 then char_of (n + 32) else c)"

definition lower :: "string \<Rightarrow> string" where
  "lower s = map lower_char s"

text \<open>\<open>sep.join(parts)\<close>\<close>

fun join :: "string \<Rightarrow> string list \<Rightarrow> string" where
  "join sep [] = []"
| "join sep [x] = x"
| "join sep (x # y # ys) = x @ sep @ join sep (y # ys)"

text \<open>The truth value of an \<open>Optional\<close> number: \<open>None\<close> and zero are false.\<close>

definition truthy :: "'a::zero option \<Rightarrow> bool" where
  "truthy v = (case v of None \<Rightarrow> False | Some x \<Rightarrow> x \<noteq> 0)"


section \<open>Data model (\<open>models/\<close>)\<close>

text \<open>
  The records carry the fields that the scoring engine, the recommender and the services
  modelled below read or write. Dates, timestamps, coordinates and the other descriptive
  fields of the pydantic models are left out: no modelled function inspects them.
\<close>

record weather_forecast =
  temperature_min :: rat
  temperature_max :: rat
  precipitation_mm :: rat
  snowfall_cm :: "rat option"
  wind_speed :: rat
  cloud_cover :: int
  conditions :: string

record snow_conditions =
  snow_base :: "int option"
  new_snow_24h :: "int option"
  new_snow_7d :: "int option"
  snow_quality :: string

record journey =
  duration_minutes :: int
  changes :: int

record access_info =
  nearest_station :: string
  postbus_required :: bool
  postbus_duration_minutes :: "int option"

record resort =
  resort_id :: string
  name :: string
  region :: string
  access :: access_info
  skiable_terrain_km :: "rat option"


section \<open>The scoring engine (\<open>core/scoring.py\<close>)\<close>

text \<open>
  Each scorer keeps three local variables, \<open>score\<close>, \<open>highlights\<close> and \<open>concerns\<close>, and
  updates them section by section. The model threads the triple through one function per
  section of the source, in source order.
\<close>

type_synonym scored = "rat \<times> string list \<times> string list"

definition bump :: "rat \<Rightarrow> scored \<Rightarrow> scored" where
  "bump d = (\<lambda>(s, hs, cs). (s + d, hs, cs))"

definition set_score :: "rat \<Rightarrow> scored \<Rightarrow> scored" where
  "set_score v = (\<lambda>(s, hs, cs). (v, hs, cs))"

definition highlight :: "string \<Rightarrow> scored \<Rightarrow> scored" where
  "highlight h = (\<lambda>(s, hs, cs). (s, hs @ [h], cs))"

definition concern :: "string \<Rightarrow> scored \<Rightarrow> scored" where
  "concern c = (\<lambda>(s, hs, cs). (s, hs, cs @ [c]))"

text \<open>\<open>score = max(0.0, min(10.0, score)); return round(score, 1), highlights, concerns\<close>\<close>

definition clamp_round :: "scored \<Rightarrow> scored" where
  "clamp_round = (\<lambda>(s, hs, cs). (py_round1 (max 0 (min 10 s)), hs, cs))"

subsection \<open>\<open>score_weather\<close>\<close>

definition weather_temperature :: "rat \<Rightarrow> scored \<Rightarrow> scored" where
  "weather_temperature avg_temp acc =
     (if - 12 \<le> avg_temp \<and> avg_temp \<le> - 3 then
        highlight (''Perfect ski temperature ('' @ fmt0 avg_temp @ ''C)'') (bump 2 acc)
      else if (- 15 \<le> avg_temp \<and> avg_temp < - 3) \<or> (- 3 < avg_temp \<and> avg_temp \<le> 0) then
        highlight (''Good temperature ('' @ fmt0 avg_temp @ ''C)'') (bump 1 acc)
      else if 2 < avg_temp then
        concern (''Warm temperatures ('' @ fmt0 avg_temp @ ''C) - possible slushy snow'')
          (bump (- 2) acc)
      else if avg_temp < - 15 then
        concern (''Very cold ('' @ fmt0 avg_temp @ ''C)'') (bump (- 1) acc)
      else acc)"

definition weather_snowfall :: "rat option \<Rightarrow> scored \<Rightarrow> scored" where
  "weather_snowfall snowfall acc =
     (case snowfall of
        None \<Rightarrow> acc
      | Some cm \<Rightarrow>
          if cm = 0 then acc
          else if 20 \<le> cm then
            highlight (''Heavy snowfall expected ('' @ fmt0 cm @ ''cm)'') (bump 3.5 acc)
          else if 10 \<le> cm then
            highlight (''Good snowfall expected ('' @ fmt0 cm @ ''cm)'') (bump 2.5 acc)
          else if 5 \<le> cm then
            highlight (''Some fresh snow expected ('' @ fmt0 cm @ ''cm)'') (bump 1 acc)
          else acc)"

definition weather_cloud :: "int \<Rightarrow> rat option \<Rightarrow> scored \<Rightarrow> scored" where
  "weather_cloud cover snowfall acc =
     (if cover < 30 then
        (if (case snowfall of None \<Rightarrow> False | Some cm \<Rightarrow> cm \<noteq> 0 \<and> 5 \<le> cm) then
           highlight ''Sunny conditions expected'' (bump 1.5 acc)
         else
           concern ''Dry conditions - no fresh snow forecast''
             (highlight ''Sunny conditions expected'' (bump 0.5 acc)))
      else if cover < 50 then highlight ''Partly cloudy'' (bump 0.5 acc)
      else if 80 < cover then concern ''Overcast conditions'' (bump (- 1) acc)
      else acc)"

definition weather_wind :: "rat \<Rightarrow> scored \<Rightarrow> scored" where
  "weather_wind wind acc =
     (if wind < 20 then bump 0.5 acc
      else if 50 < wind then concern (''Strong winds ('' @ fmt0 wind @ ''km/h)'') (bump (- 2) acc)
      else if 35 < wind then
        concern (''Moderate winds ('' @ fmt0 wind @ ''km/h)'') (bump (- 1) acc)
      else acc)"

definition weather_rain :: "rat \<Rightarrow> rat option \<Rightarrow> rat \<Rightarrow> scored \<Rightarrow> scored" where
  "weather_rain precipitation snowfall avg_temp acc =
     (if 0 < precipitation \<and> \<not> truthy snowfall then
        (if 0 < avg_temp then concern ''Rain expected'' (bump (- 3) acc) else acc)
      else acc)"

definition score_weather :: "weather_forecast option \<Rightarrow> scored" where
  "score_weather forecast =
     (case forecast of
        None \<Rightarrow> (5, [], [''Weather data unavailable''])
      | Some f \<Rightarrow>
          (let avg_temp = (temperature_min f + temperature_max f) / 2
           in clamp_round
                (weather_rain (precipitation_mm f) (snowfall_cm f) avg_temp
                  (weather_wind (wind_speed f)
                    (weather_cloud (cloud_cover f) (snowfall_cm f)
                      (weather_snowfall (snowfall_cm f)
                        (weather_temperature avg_temp (5, [], []))))))))"

subsection \<open>\<open>score_snow\<close>\<close>

definition SNOW_UNAVAILABLE_PENALTY :: rat where
  "SNOW_UNAVAILABLE_PENALTY = 2.5"

definition snow_base_depth :: "int option \<Rightarrow> scored \<Rightarrow> scored" where
  "snow_base_depth base acc =
     (case base of
        None \<Rightarrow> acc
      | Some b \<Rightarrow>
          if b = 0 then acc
          else if 150 \<le> b then
            highlight (''Excellent base depth ('' @ str_int b @ ''cm)'') (bump 2.5 acc)
          else if 100 \<le> b then
            highlight (''Good base depth ('' @ str_int b @ ''cm)'') (bump 1.5 acc)
          else if 60 \<le> b then bump 0.5 acc
          else if b < 40 then
            concern (''Low snow base ('' @ str_int b @ ''cm)'') (bump (- 2) acc)
          else acc)"

definition snow_fresh :: "int option \<Rightarrow> scored \<Rightarrow> scored" where
  "snow_fresh new24 acc =
     (case new24 of
        None \<Rightarrow> acc
      | Some n \<Rightarrow>
          if n = 0 then acc
          else if 20 \<le> n then
            highlight (''Fresh powder! ('' @ str_int n @ ''cm in 24h)'') (bump 3 acc)
          else if 10 \<le> n then
            highlight (''Fresh snow ('' @ str_int n @ ''cm in 24h)'') (bump 2 acc)
          else if 5 \<le> n then bump 1 acc
          else acc)"

definition snow_weekly :: "int option \<Rightarrow> scored \<Rightarrow> scored" where
  "snow_weekly new7 acc =
     (case new7 of
        None \<Rightarrow> acc
      | Some n \<Rightarrow>
          if n = 0 then acc
          else if 50 \<le> n then
            highlight (''Great week of snow ('' @ str_int n @ ''cm)'') (bump 1 acc)
          else if 20 \<le> n then bump 0.5 acc
          else acc)"

definition snow_quality_step :: "string \<Rightarrow> scored \<Rightarrow> scored" where
  "snow_quality_step label acc =
     (let quality = lower label
      in if quality \<in> set [''powder'', ''fresh''] then
           highlight ''Powder conditions'' (bump 1.5 acc)
         else if quality \<in> set [''packed'', ''groomed''] then
           highlight ''Well-groomed slopes'' (bump 0.5 acc)
         else if quality \<in> set [''icy'', ''hard''] then
           concern ''Icy conditions reported'' (bump (- 2) acc)
         else if quality \<in> set [''wet'', ''spring''] then
           concern ''Wet/spring snow'' (bump (- 1) acc)
         else acc)"

definition score_snow :: "snow_conditions option \<Rightarrow> scored" where
  "score_snow conds =
     (case conds of
        None \<Rightarrow> (SNOW_UNAVAILABLE_PENALTY, [], [''Snow data unavailable - conditions unknown''])
      | Some c \<Rightarrow>
          clamp_round
            (snow_quality_step (snow_quality c)
              (snow_weekly (new_snow_7d c)
                (snow_fresh (new_snow_24h c)
                  (snow_base_depth (snow_base c) (5, [], []))))))"

subsection \<open>\<open>score_transport\<close>\<close>

definition transport_duration :: "rat \<Rightarrow> scored \<Rightarrow> scored" where
  "transport_duration hours acc =
     (if hours < 2 then
        highlight (''Quick journey ('' @ fmt1 hours @ ''h)'') (set_score 10 acc)
      else if hours < 2.5 then
        highlight (''Good travel time ('' @ fmt1 hours @ ''h)'') (set_score 8.5 acc)
      else if hours < 3 then
        highlight (''Reasonable travel time ('' @ fmt1 hours @ ''h)'') (set_score 7 acc)
      else if hours < 3.5 then set_score 5.5 acc
      else if hours < 4 then
        concern (''Long journey ('' @ fmt1 hours @ ''h)'') (set_score 4 acc)
      else concern (''Very long journey ('' @ fmt1 hours @ ''h)'') (set_score 2 acc))"

definition transport_changes :: "int \<Rightarrow> scored \<Rightarrow> scored" where
  "transport_changes n acc =
     (if n = 0 then highlight ''Direct connection'' (bump 0.5 acc)
      else if n = 1 then acc
      else if n = 2 then bump (- 0.5) acc
      else if 3 \<le> n then concern (''Multiple changes ('' @ str_int n @ '')'') (bump (- 1) acc)
      else acc)"

definition score_transport :: "journey option \<Rightarrow> scored" where
  "score_transport j =
     (case j of
        None \<Rightarrow> (3, [], [''Transport data unavailable''])
      | Some jn \<Rightarrow>
          (let hours = of_int (duration_minutes jn) / 60
           in clamp_round (transport_changes (changes jn) (transport_duration hours (0, [], [])))))"

subsection \<open>\<open>score_size\<close>\<close>

definition size_band :: "rat \<Rightarrow> scored" where
  "size_band km =
     (if 200 \<le> km then (10, [''Massive ski area ('' @ fmt0 km @ ''km)''], [])
      else if 150 \<le> km then (9, [''Very large ski area ('' @ fmt0 km @ ''km)''], [])
      else if 100 \<le> km then (8, [''Large ski area ('' @ fmt0 km @ ''km)''], [])
      else if 70 \<le> km then (7, [''Good-sized ski area ('' @ fmt0 km @ ''km)''], [])
      else if 50 \<le> km then (6, [], [])
      else if 30 \<le> km then (5, [], [])
      else if 15 \<le> km then (4, [], [''Small ski area ('' @ fmt0 km @ ''km)''])
      else if 5 \<le> km then (3, [], [''Very small ski area ('' @ fmt0 km @ ''km)''])
      else (2, [], [''Tiny ski area ('' @ fmt0 km @ ''km)'']))"

definition score_size :: "resort option \<Rightarrow> scored" where
  "score_size r =
     (case r of
        None \<Rightarrow> (5, [], [''Resort size unknown''])
      | Some rs \<Rightarrow>
          (case skiable_terrain_km rs of
             None \<Rightarrow> (5, [], [''Resort size unknown''])
           | Some km \<Rightarrow> (case size_band km of (s, hs, cs) \<Rightarrow> (py_round1 s, hs, cs))))"

subsection \<open>\<open>calculate_total_score\<close> and \<open>score_resort\<close>\<close>

definition WEATHER_WEIGHT :: rat where "WEATHER_WEIGHT = 0.20"
definition SNOW_WEIGHT :: rat where "SNOW_WEIGHT = 0.45"
definition TRANSPORT_WEIGHT :: rat where "TRANSPORT_WEIGHT = 0.10"
definition SIZE_WEIGHT :: rat where "SIZE_WEIGHT = 0.25"

definition calculate_total_score :: "rat \<Rightarrow> rat \<Rightarrow> rat \<Rightarrow> rat \<Rightarrow> rat" where
  "calculate_total_score weather_score snow_score transport_score size_score =
     py_round1 (weather_score * WEATHER_WEIGHT + snow_score * SNOW_WEIGHT
                + transport_score * TRANSPORT_WEIGHT + size_score * SIZE_WEIGHT)"

definition score_resort ::
  "weather_forecast option \<Rightarrow> snow_conditions option \<Rightarrow> journey option \<Rightarrow> resort option
   \<Rightarrow> rat \<times> rat \<times> rat \<times> rat \<times> rat \<times> string list \<times> string list" where
  "score_resort weather snow transport rs =
     (case score_weather weather of (weather_score, weather_highlights, weather_concerns) \<Rightarrow>
      case score_snow snow of (snow_score, snow_highlights, snow_concerns) \<Rightarrow>
      case score_transport transport of
        (transport_score, transport_highlights, transport_concerns) \<Rightarrow>
      case score_size rs of (size_score, size_highlights, size_concerns) \<Rightarrow>
        (calculate_total_score weather_score snow_score transport_score size_score,
         weather_score, snow_score, transport_score, size_score,
         weather_highlights @ snow_highlights @ transport_highlights @ size_highlights,
         weather_concerns @ snow_concerns @ transport_concerns @ size_concerns))"


section \<open>Exceptions\<close>

text \<open>
  A raised exception is a value. \<open>PyException\<close> stands for an instance of \<open>Exception\<close> (or of a
  subclass), which \<open>except Exception\<close> and \<open>isinstance(result, Exception)\<close> recognise;
  \<open>PyBaseException\<close> stands for an instance of \<open>BaseException\<close> outside that class, such as
  \<open>asyncio.CancelledError\<close>, which they do not. The string is the message.
\<close>

datatype py_error = PyException string | PyBaseException string


section \<open>The weather service (\<open>services/weather_service.py\<close>)\<close>

text \<open>
  \<open>get_forecasts_batch\<close> starts one task \<open>fetch_with_progress(resort)\<close> per resort and awaits
  \<open>asyncio.gather(*tasks, return_exceptions=True)\<close>, which yields, in the order of the
  resort list, for every task either the exception it raised or the pair
  \<open>(resort.id, result)\<close> it returned. The outcome of a task is the parameter \<open>fetch\<close>: what
  \<open>get_forecast\<close> and the progress callback do for that resort. The loop over the results
  then fills the dictionary \<open>forecasts\<close>.
\<close>

definition gather :: "(resort \<Rightarrow> py_error + 'a) \<Rightarrow> resort list \<Rightarrow> (py_error + string \<times> 'a) list" where
  "gather fetch resorts =
     map (\<lambda>r. case fetch r of Inl e \<Rightarrow> Inl e | Inr result \<Rightarrow> Inr (resort_id r, result)) resorts"

text \<open>
  The loop \<open>for result in results\<close>: an \<open>Exception\<close> is logged and skipped; anything else is
  unpacked as a pair and stored. Unpacking an exception object that is not an \<open>Exception\<close>
  raises \<open>TypeError\<close>.
\<close>

fun collect :: "(py_error + 'k \<times> 'v) list \<Rightarrow> ('k \<rightharpoonup> 'v) \<Rightarrow> py_error + ('k \<rightharpoonup> 'v)" where
  "collect [] d = Inr d"
| "collect (Inl (PyException msg) # results) d = collect results d"
| "collect (Inl (PyBaseException msg) # results) d = Inl (PyException ''TypeError'')"
| "collect (Inr (k, v) # results) d = collect results (d(k \<mapsto> v))"

definition get_forecasts_batch ::
  "(resort \<Rightarrow> py_error + weather_forecast option) \<Rightarrow> resort list
   \<Rightarrow> py_error + (string \<rightharpoonup> weather_forecast option)" where
  "get_forecasts_batch fetch resorts = collect (gather fetch resorts) Map.empty"

text \<open>\<open>d.get(k)\<close> on a dictionary whose values are optional: a missing key gives \<open>None\<close>.\<close>

definition dict_get :: "('k \<rightharpoonup> 'v option) \<Rightarrow> 'k \<Rightarrow> 'v option" where
  "dict_get d k = (case d k of None \<Rightarrow> None | Some v \<Rightarrow> v)"


section \<open>The transport service (\<open>services/transport_service.py\<close>)\<close>

text \<open>
  \<open>get_journey\<close> consults the process-wide cache, then the transport API. The cache is a
  dictionary from keys to journeys (its entries that have not expired; expiry times are not
  modelled). The request to the API and the parsing of its answer are the parameter \<open>api\<close>:
  every exception on that path is caught inside \<open>get_journey\<close> and gives \<open>None\<close>. The travel
  date is the text of \<open>travel_date.isoformat()\<close>.
\<close>

type_synonym transport_cache = "string \<rightharpoonup> journey"

definition cache_key :: "string \<Rightarrow> string \<Rightarrow> string \<Rightarrow> string" where
  "cache_key from_location to_location travel_date =
     ''transport:'' @ from_location @ '':'' @ to_location @ '':'' @ travel_date"

definition get_journey ::
  "bool \<Rightarrow> (string \<Rightarrow> string \<Rightarrow> string \<Rightarrow> journey option) \<Rightarrow> string \<Rightarrow> string \<Rightarrow> string
   \<Rightarrow> transport_cache \<Rightarrow> journey option \<times> transport_cache" where
  "get_journey cache_enabled api from_location to_location travel_date cache =
     (let key = cache_key from_location to_location travel_date
      in case (if cache_enabled then cache key else None) of
           Some cached \<Rightarrow> (Some cached, cache)
         | None \<Rightarrow>
             (case api from_location to_location travel_date of
                None \<Rightarrow> (None, cache)
              | Some j \<Rightarrow> (Some j, if cache_enabled then cache(key \<mapsto> j) else cache)))"

text \<open>
  \<open>get_resort_journey\<close> adds the PostBus time with \<open>journey.duration_minutes += ...\<close>, an
  update in place of the object that \<open>get_journey\<close> returned. With the cache enabled that
  object is the one stored under the station's key, so the entry changes with it; the
  model writes the changed journey back to the cache.
\<close>

definition get_resort_journey ::
  "bool \<Rightarrow> (string \<Rightarrow> string \<Rightarrow> string \<Rightarrow> journey option) \<Rightarrow> string \<Rightarrow> resort \<Rightarrow> string
   \<Rightarrow> transport_cache \<Rightarrow> journey option \<times> transport_cache" where
  "get_resort_journey cache_enabled api from_location rs travel_date cache =
     (case get_journey cache_enabled api from_location (name rs) travel_date cache of
        (Some j, cache1) \<Rightarrow> (Some j, cache1)
      | (None, cache1) \<Rightarrow>
          if nearest_station (access rs) \<noteq> [] then
            (case get_journey cache_enabled api from_location (nearest_station (access rs))
                    travel_date cache1 of
               (Some j, cache2) \<Rightarrow>
                 (case postbus_duration_minutes (access rs) of
                    None \<Rightarrow> (Some j, cache2)
                  | Some postbus \<Rightarrow>
                      if postbus = 0 then (Some j, cache2)
                      else
                        (let j' = j\<lparr>duration_minutes := duration_minutes j + postbus\<rparr>
                         in (Some j',
                             if cache_enabled then
                               cache2(cache_key from_location (nearest_station (access rs))
                                        travel_date \<mapsto> j')
                             else cache2)))
             | (None, cache2) \<Rightarrow> (None, cache2))
          else (None, cache1))"


section \<open>Recommendations (\<open>models/recommendation.py\<close>)\<close>

record recommendation =
  resort :: resort
  score :: rat
  weather_score :: rat
  snow_score :: rat
  transport_score :: rat
  size_score :: rat
  weather_forecast :: "weather_forecast option"
  snow_conditions :: "snow_conditions option"
  journey :: "journey option"
  highlights :: "string list"
  concerns :: "string list"
  reasoning :: string

record recommendations_response =
  recommendations :: "recommendation list"
  ai_summary :: string
  target_weekend :: string


section \<open>The narrative summarizer (\<open>services/llm_service.py\<close>)\<close>

text \<open>
  \<open>_generate_fallback_summary\<close> and, further down, \<open>_generate_reasoning\<close>: the names here
  drop the leading underscore.
\<close>

definition generate_fallback_summary :: "recommendation list \<Rightarrow> string" where
  "generate_fallback_summary recs =
     (case recs of
        [] \<Rightarrow> ''Unable to generate recommendations at this time.''
      | top_rec # _ \<Rightarrow>
          ''Based on current conditions, '' @ name (resort top_rec) @ '' looks like the best choice ''
          @ ''with a score of '' @ fmt1 (score top_rec) @ ''/10. ''
          @ (case weather_forecast top_rec of
               None \<Rightarrow> []
             | Some forecast \<Rightarrow> ''Weather forecast shows '' @ conditions forecast @ ''. '')
          @ (case journey top_rec of
               None \<Rightarrow> []
             | Some j \<Rightarrow>
                 ''Travel time from Geneva is approximately ''
                 @ str_int (duration_minutes j div 60) @ ''h ''
                 @ str_int (duration_minutes j mod 60) @ ''min.''))"

text \<open>
  \<open>generate_recommendation_summary\<close>. The body of its \<open>try\<close> block, the request to the
  language model with the prompt built from the recommendations and the weekend label, is
  the parameter \<open>completion\<close>: the text of the answer, or the exception raised.
\<close>

definition generate_recommendation_summary ::
  "(recommendation list \<Rightarrow> string \<Rightarrow> py_error + string) \<Rightarrow> recommendation list \<Rightarrow> string
   \<Rightarrow> py_error + string" where
  "generate_recommendation_summary completion recs weekend =
     (if recs = [] then
        Inr (''Unfortunately, I couldn't generate recommendations at this time. ''
             @ ''Please try again later.'')
      else case completion recs weekend of
             Inr summary \<Rightarrow> Inr summary
           | Inl (PyException msg) \<Rightarrow> Inr (generate_fallback_summary recs)
           | Inl (PyBaseException msg) \<Rightarrow> Inl (PyBaseException msg))"


section \<open>The recommender (\<open>core/recommender.py\<close>)\<close>

definition generate_reasoning :: "resort \<Rightarrow> rat \<Rightarrow> rat \<Rightarrow> rat \<Rightarrow> rat \<Rightarrow> string" where
  "generate_reasoning rs total_score weather_sc snow_sc transport_sc =
     (let parts =
            [if 8 \<le> total_score then name rs @ '' looks excellent this weekend''
             else if 6 \<le> total_score then name rs @ '' is a solid choice''
             else if 4 \<le> total_score then name rs @ '' is an option worth considering''
             else name rs @ '' may not be ideal this weekend''];
          factors =
            (if 7 \<le> weather_sc then [''great weather'']
             else if weather_sc < 4 then [''challenging weather''] else [])
            @ (if 7 \<le> snow_sc then [''excellent snow conditions'']
               else if snow_sc < 4 then [''limited snow''] else [])
            @ (if 7 \<le> transport_sc then [''easy access'']
               else if transport_sc < 4 then [''long travel time''] else [])
      in join ''. '' (if factors = [] then parts else parts @ [''with '' @ join '', '' factors])
         @ ''.'')"

text \<open>\<open>xs[:n]\<close>: a negative \<open>n\<close> counts from the end of the list.\<close>

definition slice_to :: "int \<Rightarrow> 'a list \<Rightarrow> 'a list" where
  "slice_to n xs = (if n < 0 then take (nat (int (length xs) + n)) xs else take (nat n) xs)"

text \<open>
  \<open>xs.sort(key=key, reverse=True)\<close>: the list is reversed, sorted stably by ascending key and
  reversed again, so elements with equal keys keep their order.
\<close>

definition sort_reverse :: "('a \<Rightarrow> 'k::linorder) \<Rightarrow> 'a list \<Rightarrow> 'a list" where
  "sort_reverse key xs = rev (sort_key key (rev xs))"

text \<open>The body of the loop \<open>for resort in resorts\<close> of \<open>generate_recommendations\<close>.\<close>

definition build_recommendation ::
  "(string \<rightharpoonup> weather_forecast option) \<Rightarrow> (string \<rightharpoonup> snow_conditions option)
   \<Rightarrow> (string \<rightharpoonup> journey option) \<Rightarrow> resort \<Rightarrow> recommendation" where
  "build_recommendation weather_data snow_data transport_data rs =
     (let weather = dict_get weather_data (resort_id rs);
          snow = dict_get snow_data (resort_id rs);
          transport = dict_get transport_data (resort_id rs)
      in case score_resort weather snow transport (Some rs) of
           (total_score, weather_sc, snow_sc, transport_sc, size_sc, hs, cs) \<Rightarrow>
             \<lparr>resort = rs, score = total_score, weather_score = weather_sc, snow_score = snow_sc,
              transport_score = transport_sc, size_score = size_sc, weather_forecast = weather,
              snow_conditions = snow, journey = transport,
              highlights = slice_to 5 hs, concerns = slice_to 5 cs,
              reasoning = generate_reasoning rs total_score weather_sc snow_sc transport_sc\<rparr>)"

text \<open>
  \<open>generate_recommendations\<close>. The resort list is what \<open>get_all_resorts\<close> returns, the three
  dictionaries are the results of the three batch fetches, \<open>summarize\<close> is the method
  \<open>generate_recommendation_summary\<close> of the summarizer the engine was built with, and
  \<open>weekend\<close> is the label computed from the current date. \<open>rank_recommendations\<close> is the
  list \<open>recommendations\<close> after the loop and the sort.
\<close>

definition rank_recommendations ::
  "(string \<rightharpoonup> weather_forecast option) \<Rightarrow> (string \<rightharpoonup> snow_conditions option)
   \<Rightarrow> (string \<rightharpoonup> journey option) \<Rightarrow> resort list \<Rightarrow> recommendation list" where
  "rank_recommendations weather_data snow_data transport_data resorts =
     sort_reverse score (map (build_recommendation weather_data snow_data transport_data) resorts)"

definition generate_recommendations ::
  "(recommendation list \<Rightarrow> string \<Rightarrow> py_error + string) \<Rightarrow> resort list
   \<Rightarrow> (string \<rightharpoonup> weather_forecast option) \<Rightarrow> (string \<rightharpoonup> snow_conditions option)
   \<Rightarrow> (string \<rightharpoonup> journey option) \<Rightarrow> int \<Rightarrow> string \<Rightarrow> py_error + recommendations_response" where
  "generate_recommendations summarize resorts weather_data snow_data transport_data
     num_recommendations weekend =
     (let top_recommendations =
            slice_to num_recommendations
              (rank_recommendations weather_data snow_data transport_data resorts)
      in case summarize top_recommendations weekend of
           Inl e \<Rightarrow> Inl e
         | Inr summary \<Rightarrow>
             Inr \<lparr>recommendations = top_recommendations, ai_summary = summary,
                  target_weekend = weekend\<rparr>)"

text \<open>\<open>ResortService.get_resort_by_id\<close>: the first resort of the list with that id.\<close>

fun get_resort_by_id :: "resort list \<Rightarrow> string \<Rightarrow> resort option" where
  "get_resort_by_id [] rid = None"
| "get_resort_by_id (r # rs) rid = (if resort_id r = rid then Some r else get_resort_by_id rs rid)"

text \<open>
  \<open>get_resort_details\<close>. The three awaited fetches for the resort found are the parameters
  \<open>weather_of\<close>, \<open>snow_of\<close> and \<open>transport_of\<close>.
\<close>

definition get_resort_details ::
  "resort list \<Rightarrow> (resort \<Rightarrow> weather_forecast option) \<Rightarrow> (resort \<Rightarrow> snow_conditions option)
   \<Rightarrow> (resort \<Rightarrow> journey option) \<Rightarrow> string \<Rightarrow> recommendation option" where
  "get_resort_details resorts weather_of snow_of transport_of rid =
     (case get_resort_by_id resorts rid of
        None \<Rightarrow> None
      | Some rs \<Rightarrow>
          (let weather = weather_of rs; snow = snow_of rs; transport = transport_of rs
           in case score_resort weather snow transport (Some rs) of
                (total_score, weather_sc, snow_sc, transport_sc, size_sc, hs, cs) \<Rightarrow>
                  Some \<lparr>resort = rs, score = total_score, weather_score = weather_sc,
                        snow_score = snow_sc, transport_score = transport_sc,
                        size_score = size_sc, weather_forecast = weather,
                        snow_conditions = snow, journey = transport,
                        highlights = hs, concerns = cs,
                        reasoning =
                          generate_reasoning rs total_score weather_sc snow_sc transport_sc\<rparr>))"


section \<open>The weighted sum as the specification writes it\<close>



section \<open>Sample data\<close>

definition sample_resort :: "string \<Rightarrow> string \<Rightarrow> rat option \<Rightarrow> resort" where
  "sample_resort rid nm km =
     \<lparr>resort_id = rid, name = nm, region = ''Valais'',
      access = \<lparr>nearest_station = ''Sion'', postbus_required = True,
                postbus_duration_minutes = Some 25\<rparr>,
      skiable_terrain_km = km\<rparr>"

definition snowy_forecast :: weather_forecast where
  "snowy_forecast =
     \<lparr>temperature_min = - 10, temperature_max = - 4, precipitation_mm = 0,
      snowfall_cm = Some 22, wind_speed = 10, cloud_cover = 20, conditions = ''light snow''\<rparr>"

definition powder_snow :: snow_conditions where
  "powder_snow =
     \<lparr>snow_base = Some 160, new_snow_24h = Some 25, new_snow_7d = Some 60,
      snow_quality = ''Powder''\<rparr>"

definition plain_snow :: snow_conditions where
  "plain_snow =
     \<lparr>snow_base = None, new_snow_24h = None, new_snow_7d = None, snow_quality = ''Unknown''\<rparr>"

definition quick_journey :: journey where
  "quick_journey = \<lparr>duration_minutes = 95, changes = 0\<rparr>"

definition medium_journey :: journey where
  "medium_journey = \<lparr>duration_minutes = 160, changes = 0\<rparr>"


definition verbier :: resort where
  "verbier = sample_resort ''verbier'' ''Verbier'' (Some 210)"

definition anzere :: resort where
  "anzere = sample_resort ''anzere'' ''Anzere'' (Some 210)"

definition crans :: resort where
  "crans = sample_resort ''crans'' ''Crans'' (Some 210)"

definition nax :: resort where
  "nax = sample_resort ''nax'' ''Nax'' (Some 35)"

definition ovronnaz :: resort where
  "ovronnaz = sample_resort ''ovronnaz'' ''Ovronnaz'' (Some 30)"

definition five_resorts :: "resort list" where
  "five_resorts = [anzere, verbier, crans, nax, ovronnaz]"

definition no_weather :: "string \<rightharpoonup> weather_forecast option" where
  "no_weather = [''verbier'' \<mapsto> None]"

definition snowy_weather :: "string \<rightharpoonup> weather_forecast option" where
  "snowy_weather = [''verbier'' \<mapsto> Some snowy_forecast]"

definition sample_snow :: "string \<rightharpoonup> snow_conditions option" where
  "sample_snow =
     [''verbier'' \<mapsto> Some powder_snow, ''anzere'' \<mapsto> Some plain_snow,
      ''crans'' \<mapsto> Some plain_snow]"

definition sample_transport :: "string \<rightharpoonup> journey option" where
  "sample_transport =
     [''verbier'' \<mapsto> Some quick_journey, ''anzere'' \<mapsto> Some medium_journey,
      ''crans'' \<mapsto> Some medium_journey]"

definition ten_highlights :: "string list" where
  "ten_highlights =
     [''Perfect ski temperature (-7C)'', ''Heavy snowfall expected (22cm)'',
      ''Sunny conditions expected'', ''Excellent base depth (160cm)'',
      ''Fresh powder! (25cm in 24h)'', ''Great week of snow (60cm)'',
      ''Powder conditions'', ''Quick journey (1.6h)'', ''Direct connection'',
      ''Massive ski area (210km)'']"

text \<open>A fetch that raises for one resort, and a transport API that knows two stops.\<close>

definition failing_fetch :: "resort \<Rightarrow> py_error + weather_forecast option" where
  "failing_fetch r =
     (if resort_id r = ''crans'' then Inl (PyException ''connection reset'')
      else Inr (Some snowy_forecast))"

definition station_api :: "string \<Rightarrow> string \<Rightarrow> string \<Rightarrow> journey option" where
  "station_api from_location to_location travel_date =
     (if to_location = ''Sion'' then Some \<lparr>duration_minutes = 110, changes = 1\<rparr>
      else if to_location = ''Verbier'' then Some \<lparr>duration_minutes = 150, changes = 2\<rparr>
      else None)"


section \<open>Rounding and formatting facts\<close>

lemmas acc_defs = bump_def set_score_def highlight_def concern_def

lemma round_half_even_of_int: "round_half_even (of_int n) = n"
  by (simp add: round_half_even_def)

lemma round_half_even_lower: "of_int a \<le> x \<Longrightarrow> a \<le> round_half_even x"
proof -
  assume "of_int a \<le> x"
  then have "a \<le> \<lfloor>x\<rfloor>" by (simp add: le_floor_iff)
  then show ?thesis by (simp add: round_half_even_def Let_def)
qed

lemma round_half_even_upper: "x \<le> of_int b \<Longrightarrow> round_half_even x \<le> b"
proof -
  assume le: "x \<le> of_int b"
  show ?thesis
  proof (cases "x = of_int b")
    case True
    then show ?thesis by (simp add: round_half_even_of_int)
  next
    case False
    with le have "x < of_int b" by simp
    then have "\<lfloor>x\<rfloor> < b" by (simp add: floor_less_iff)
    then show ?thesis by (simp add: round_half_even_def Let_def)
  qed
qed

lemma py_round1_range: "0 \<le> x \<Longrightarrow> x \<le> 10 \<Longrightarrow> 0 \<le> py_round1 x \<and> py_round1 x \<le> 10"
proof -
  assume a: "0 \<le> x" "x \<le> 10"
  have "(of_int 0 :: rat) \<le> x * 10" using a by simp
  then have l: "0 \<le> round_half_even (x * 10)" by (rule round_half_even_lower)
  have "x * 10 \<le> of_int 100" using a by simp
  then have u: "round_half_even (x * 10) \<le> 100" by (rule round_half_even_upper)
  have "(of_int (round_half_even (x * 10)) :: rat) \<le> of_int 100"
    using u by (simp only: of_int_le_iff)
  with l show ?thesis by (simp add: py_round1_def)
qed

lemma py_round1_idem: "py_round1 (py_round1 x) = py_round1 x"
  by (simp add: py_round1_def round_half_even_of_int)

lemma py_round1_of_int: "py_round1 (of_int n) = of_int n"
proof -
  have "(of_int n :: rat) * 10 = of_int (n * 10)" by simp
  then show ?thesis unfolding py_round1_def by (simp only: round_half_even_of_int)
qed

lemma py_round1_half: "py_round1 2.5 = 2.5"
  by (simp add: py_round1_def round_half_even_def)

lemma fmt1_two: "fmt1 2 = ''2.0''"
  by code_simp

lemma fmt1_119: "fmt1 (119 / 60) = ''2.0''"
  by code_simp


section \<open>Sub-scores lie in [0, 10] with one decimal\<close>

lemma clamp_round_valid:
  "0 \<le> fst (clamp_round acc) \<and> fst (clamp_round acc) \<le> 10
   \<and> py_round1 (fst (clamp_round acc)) = fst (clamp_round acc)"
proof -
  obtain s hs cs where acc: "acc = (s, hs, cs)" by (cases acc)
  have "0 \<le> max 0 (min 10 s)" "max 0 (min 10 s) \<le> 10" by simp_all
  then show ?thesis
    using py_round1_range [of "max 0 (min 10 s)"]
    by (simp add: acc clamp_round_def py_round1_idem)
qed

lemma size_band_int: "\<exists>n. fst (size_band km) = of_int n \<and> 0 \<le> n \<and> n \<le> 10"
proof -
  have "fst (size_band km) \<in> of_int ` {2, 3, 4, 5, 6, 7, 8, 9, 10}"
    by (simp add: size_band_def)
  then show ?thesis by auto
qed

lemma score_weather_valid:
  "0 \<le> fst (score_weather forecast) \<and> fst (score_weather forecast) \<le> 10
   \<and> py_round1 (fst (score_weather forecast)) = fst (score_weather forecast)"
proof (cases forecast)
  case None
  have "py_round1 5 = 5" using py_round1_of_int [of 5] by simp
  with None show ?thesis by (simp add: score_weather_def)
next
  case (Some f)
  then show ?thesis using clamp_round_valid by (simp add: score_weather_def Let_def)
qed

lemma score_snow_valid:
  "0 \<le> fst (score_snow conds) \<and> fst (score_snow conds) \<le> 10
   \<and> py_round1 (fst (score_snow conds)) = fst (score_snow conds)"
proof (cases conds)
  case None
  with py_round1_half show ?thesis by (simp add: score_snow_def SNOW_UNAVAILABLE_PENALTY_def)
next
  case (Some c)
  then show ?thesis using clamp_round_valid by (simp add: score_snow_def)
qed

lemma score_transport_valid:
  "0 \<le> fst (score_transport j) \<and> fst (score_transport j) \<le> 10
   \<and> py_round1 (fst (score_transport j)) = fst (score_transport j)"
proof (cases j)
  case None
  have "py_round1 3 = 3" using py_round1_of_int [of 3] by simp
  with None show ?thesis by (simp add: score_transport_def)
next
  case (Some jn)
  then show ?thesis using clamp_round_valid by (simp add: score_transport_def Let_def)
qed

lemma score_size_valid:
  "0 \<le> fst (score_size r) \<and> fst (score_size r) \<le> 10
   \<and> py_round1 (fst (score_size r)) = fst (score_size r)"
proof -
  have five: "py_round1 5 = 5" using py_round1_of_int [of 5] by simp
  show ?thesis
  proof (cases r)
    case None
    with five show ?thesis by (simp add: score_size_def)
  next
    case (Some rs)
    show ?thesis
    proof (cases "skiable_terrain_km rs")
      case None
      with Some five show ?thesis by (simp add: score_size_def)
    next
      case (Some km)
      obtain n where n: "fst (size_band km) = of_int n" "0 \<le> n" "n \<le> 10"
        using size_band_int by blast
      obtain s hs cs where sb: "size_band km = (s, hs, cs)" by (cases "size_band km")
      with n have s: "s = of_int n" by simp
      have "fst (score_size r) = py_round1 (of_int n)"
        using \<open>r = Some rs\<close> Some sb s by (simp add: score_size_def)
      then show ?thesis using n by (simp add: py_round1_of_int)
    qed
  qed
qed

text \<open>
  C1. Whatever the forecast, the snow conditions, the journey and the resort are, present
  or absent, the score that each of \<open>score_weather\<close>, \<open>score_snow\<close>, \<open>score_transport\<close> and
  \<open>score_size\<close> returns lies between 0 and 10 and is unchanged by rounding to one decimal
  place. This holds for \<open>score_size\<close> too, which does not clamp.
\<close>

theorem sub_scores_in_range:
  "(0 \<le> fst (score_weather forecast) \<and> fst (score_weather forecast) \<le> 10
      \<and> py_round1 (fst (score_weather forecast)) = fst (score_weather forecast))
   \<and> (0 \<le> fst (score_snow conds) \<and> fst (score_snow conds) \<le> 10
      \<and> py_round1 (fst (score_snow conds)) = fst (score_snow conds))
   \<and> (0 \<le> fst (score_transport j) \<and> fst (score_transport j) \<le> 10
      \<and> py_round1 (fst (score_transport j)) = fst (score_transport j))
   \<and> (0 \<le> fst (score_size r) \<and> fst (score_size r) \<le> 10
      \<and> py_round1 (fst (score_size r)) = fst (score_size r))"
  using score_weather_valid score_snow_valid score_transport_valid score_size_valid by blast


section \<open>The total is the weighted sum\<close>




section \<open>Absent data\<close>

text \<open>
  C3. The scorers are total functions with no error result. Without a forecast
  \<open>score_weather\<close> returns exactly 5.0 and the concern that weather data is unavailable;
  without conditions \<open>score_snow\<close> returns exactly 2.5 and the concern that snow data is
  unavailable; without a journey \<open>score_transport\<close> returns exactly 3.0 and the concern that
  transport data is unavailable; without a resort, or for a resort whose terrain size is
  unknown, \<open>score_size\<close> returns exactly 5.0 and the concern that the size is unknown.
\<close>

theorem absent_defaults:
  "score_weather None = (5.0, [], [''Weather data unavailable''])
   \<and> score_snow None = (2.5, [], [''Snow data unavailable - conditions unknown''])
   \<and> score_transport None = (3.0, [], [''Transport data unavailable''])
   \<and> score_size None = (5.0, [], [''Resort size unknown''])
   \<and> score_size (Some (r\<lparr>skiable_terrain_km := None\<rparr>)) = (5.0, [], [''Resort size unknown''])"
  by (simp add: score_weather_def score_snow_def score_transport_def score_size_def
      SNOW_UNAVAILABLE_PENALTY_def)


section \<open>Transport duration bands\<close>

text \<open>
  C7. The duration bands of \<open>score_transport\<close> are half-open, with a strict comparison at the
  upper end: 120 minutes (2.0 hours) is in the band below 2.5 hours with base score 8.5,
  119 minutes is in the band below 2 hours with base score 10.0; the adjustment for the
  number of changes and the clamp come after. For every number of minutes the base score
  is the one of the first band whose upper end exceeds it.
\<close>

theorem transport_band_boundary:
  "transport_duration (of_int 120 / 60) (0, [], []) = (8.5, [''Good travel time (2.0h)''], [])
   \<and> transport_duration (of_int 119 / 60) (0, [], []) = (10.0, [''Quick journey (2.0h)''], [])
   \<and> score_transport (Some \<lparr>duration_minutes = 120, changes = c\<rparr>)
       = clamp_round (transport_changes c (8.5, [''Good travel time (2.0h)''], []))
   \<and> score_transport (Some \<lparr>duration_minutes = 119, changes = c\<rparr>)
       = clamp_round (transport_changes c (10.0, [''Quick journey (2.0h)''], []))
   \<and> fst (transport_duration (of_int m / 60) acc)
       = (if m < 120 then 10.0 else if m < 150 then 8.5 else if m < 180 then 7.0
          else if m < 210 then 5.5 else if m < 240 then 4.0 else 2.0)"
  apply (intro conjI)
  subgoal by (simp add: transport_duration_def acc_defs fmt1_two)
  subgoal by (simp add: transport_duration_def acc_defs fmt1_119)
  subgoal by (simp add: score_transport_def transport_duration_def acc_defs fmt1_two)
  subgoal by (simp add: score_transport_def transport_duration_def acc_defs fmt1_119)
  subgoal by (cases acc) (simp add: transport_duration_def acc_defs)
  done


section \<open>A low snow base\<close>

text \<open>
  C8, as the claim states it, fails for a base depth of exactly 0: the guard
  \<open>if conditions.snow_base:\<close> is false for 0 as it is for \<open>None\<close>, the whole base-depth
  section is skipped, nothing is subtracted and no concern is emitted.
\<close>

theorem zero_base_not_penalised:
  "score_snow (Some \<lparr>snow_base = Some 0, new_snow_24h = None, new_snow_7d = None,
                      snow_quality = ''Unknown''\<rparr>) = (5.0, [], [])
   \<and> snow_base_depth (Some 0) (5.0, [], []) \<noteq> (3.0, [], [''Low snow base (0cm)''])"
  by (simp add: score_snow_def snow_base_depth_def snow_fresh_def snow_weekly_def
      snow_quality_step_def lower_def lower_char_def clamp_round_def
      py_round1_def round_half_even_def)

text \<open>
  C8, amended. For present snow conditions whose base depth is reported, is not 0 and is
  below 40 cm, \<open>score_snow\<close> subtracts 2.0 from the base score of 5.0 and emits the
  low-snow-base concern, before the later sections and the clamp; a base depth of exactly 0
  leaves the base score and the concerns as they are.
\<close>

theorem low_base_penalty:
  assumes "snow_base c = Some b" and "b < 40"
  shows "snow_base_depth (snow_base c) (5.0, [], [])
           = (if b = 0 then (5.0, [], [])
              else (3.0, [], [''Low snow base ('' @ str_int b @ ''cm)'']))
         \<and> score_snow (Some c)
           = clamp_round (snow_quality_step (snow_quality c) (snow_weekly (new_snow_7d c)
               (snow_fresh (new_snow_24h c)
                 (if b = 0 then (5.0, [], [])
                  else (3.0, [], [''Low snow base ('' @ str_int b @ ''cm)''])))))"
  using assms by (simp add: score_snow_def snow_base_depth_def acc_defs)

text \<open>C8, amended, at a base depth of 25 cm with icy snow.\<close>

theorem low_base_penalty_witness:
  "snow_base_depth (Some 25) (5.0, [], []) = (3.0, [], [''Low snow base (25cm)''])
   \<and> score_snow (Some \<lparr>snow_base = Some 25, new_snow_24h = None, new_snow_7d = None,
                        snow_quality = ''Icy''\<rparr>)
       = (1.0, [], [''Low snow base (25cm)'', ''Icy conditions reported''])"
proof -
  have s: "str_int 25 = ''25''" by code_simp
  have l: "lower ''Icy'' = ''icy''" by code_simp
  have r: "py_round1 1 = 1" using py_round1_of_int [of 1] by simp
  show ?thesis
    using low_base_penalty [of "\<lparr>snow_base = Some 25, new_snow_24h = None,
                        new_snow_7d = None, snow_quality = ''Icy''\<rparr>" 25]
    by (simp add: s l r snow_quality_step_def snow_weekly_def snow_fresh_def acc_defs
        clamp_round_def)
qed


section \<open>The PostBus time\<close>

text \<open>
  C10. In \<open>get_resort_journey\<close>, when the lookup by the resort's name yields a journey, that
  journey is returned as it is. When it yields none, the resort names a nearest station,
  the lookup by that station yields a journey and the resort has a PostBus duration, the
  journey returned has the duration of the station journey plus the PostBus duration.
\<close>

theorem postbus_added_to_station_journey:
  "(get_journey ce api origin (name rs) day cache = (Some j, cache1)
      \<longrightarrow> get_resort_journey ce api origin rs day cache = (Some j, cache1))
   \<and> (get_journey ce api origin (name rs) day cache = (None, cache1)
      \<and> nearest_station (access rs) \<noteq> []
      \<and> get_journey ce api origin (nearest_station (access rs)) day cache1 = (Some j, cache2)
      \<and> postbus_duration_minutes (access rs) = Some postbus
      \<longrightarrow> fst (get_resort_journey ce api origin rs day cache)
            = Some (j\<lparr>duration_minutes := duration_minutes j + postbus\<rparr>))"
  by (simp add: get_resort_journey_def Let_def)

text \<open>
  C10 at two resorts and an empty cache: Nax is not a stop, its station Sion is 110
  minutes away and the PostBus takes 25; Verbier is a stop, 150 minutes away.
\<close>

theorem postbus_added_to_station_journey_witness:
  "fst (get_resort_journey True station_api ''Geneva'' nax ''2026-01-10'' Map.empty)
     = Some \<lparr>duration_minutes = 135, changes = 1\<rparr>
   \<and> fst (get_resort_journey True station_api ''Geneva'' verbier ''2026-01-10'' Map.empty)
     = Some \<lparr>duration_minutes = 150, changes = 2\<rparr>"
proof -
  have d: "name nax = ''Nax''" "nearest_station (access nax) = ''Sion''"
    "postbus_duration_minutes (access nax) = Some 25"
    by (simp_all add: nax_def sample_resort_def)
  have b: "name verbier = ''Verbier''" by (simp add: verbier_def sample_resort_def)
  have by_name: "get_journey True station_api ''Geneva'' (name nax) ''2026-01-10'' Map.empty
                 = (None, Map.empty)"
    by (simp add: d get_journey_def station_api_def)
  have by_station: "get_journey True station_api ''Geneva'' (nearest_station (access nax))
                      ''2026-01-10'' Map.empty
                    = (Some \<lparr>duration_minutes = 110, changes = 1\<rparr>,
                       [cache_key ''Geneva'' ''Sion'' ''2026-01-10''
                          \<mapsto> \<lparr>duration_minutes = 110, changes = 1\<rparr>])"
    by (simp add: d get_journey_def station_api_def)
  have direct: "get_journey True station_api ''Geneva'' (name verbier) ''2026-01-10'' Map.empty
                = (Some \<lparr>duration_minutes = 150, changes = 2\<rparr>,
                   [cache_key ''Geneva'' ''Verbier'' ''2026-01-10''
                      \<mapsto> \<lparr>duration_minutes = 150, changes = 2\<rparr>])"
    by (simp add: b get_journey_def station_api_def)
  have st: "nearest_station (access nax) \<noteq> []" by (simp add: d)
  from postbus_added_to_station_journey [of True station_api "''Geneva''" nax "''2026-01-10''"
         Map.empty] by_name by_station st d(3)
  have one: "fst (get_resort_journey True station_api ''Geneva'' nax ''2026-01-10'' Map.empty)
     = Some \<lparr>duration_minutes = 135, changes = 1\<rparr>"
    by simp
  from postbus_added_to_station_journey [of True station_api "''Geneva''" verbier
         "''2026-01-10''" Map.empty] direct
  have two: "fst (get_resort_journey True station_api ''Geneva'' verbier ''2026-01-10'' Map.empty)
     = Some \<lparr>duration_minutes = 150, changes = 2\<rparr>"
    by simp
  from one two show ?thesis by simp
qed

text \<open>
  The station journey is the one the lookup yields. With the cache enabled the update in
  place also changes the cached journey, so a second call for the same resort finds 135
  minutes in the cache and returns 160.
\<close>

lemma cached_journey_grows:
  "get_resort_journey True station_api ''Geneva'' nax ''2026-01-10'' Map.empty
     = (Some \<lparr>duration_minutes = 135, changes = 1\<rparr>,
        [cache_key ''Geneva'' ''Sion'' ''2026-01-10''
           \<mapsto> \<lparr>duration_minutes = 135, changes = 1\<rparr>])
   \<and> fst (get_resort_journey True station_api ''Geneva'' nax ''2026-01-10''
            [cache_key ''Geneva'' ''Sion'' ''2026-01-10''
               \<mapsto> \<lparr>duration_minutes = 135, changes = 1\<rparr>])
     = Some \<lparr>duration_minutes = 160, changes = 1\<rparr>"
  by (simp add: get_resort_journey_def get_journey_def station_api_def nax_def
      sample_resort_def cache_key_def Let_def)


section \<open>Failure isolation in the weather batch\<close>

lemma collect_gather:
  assumes "\<forall>r\<in>set rs. \<forall>msg. fetch r \<noteq> Inl (PyBaseException msg)"
  shows "\<exists>m. collect (gather fetch rs) d = Inr m
           \<and> dom m = dom d \<union> resort_id ` {r \<in> set rs. \<exists>v. fetch r = Inr v}
           \<and> (\<forall>k. k \<notin> resort_id ` set rs \<longrightarrow> m k = d k)
           \<and> (distinct (map resort_id rs)
                \<longrightarrow> (\<forall>r\<in>set rs. \<forall>v. fetch r = Inr v \<longrightarrow> m (resort_id r) = Some v))"
  using assms
proof (induction rs arbitrary: d)
  case Nil
  then show ?case by (simp add: gather_def)
next
  case (Cons r rs)
  from Cons.prems have tl: "\<forall>r\<in>set rs. \<forall>msg. fetch r \<noteq> Inl (PyBaseException msg)" by simp
  show ?case
  proof (cases "fetch r")
    case (Inl e)
    with Cons.prems obtain msg where e: "e = PyException msg" by (cases e) auto
    from Cons.IH [OF tl, of d] obtain m where m:
      "collect (gather fetch rs) d = Inr m"
      "dom m = dom d \<union> resort_id ` {r \<in> set rs. \<exists>v. fetch r = Inr v}"
      "\<forall>k. k \<notin> resort_id ` set rs \<longrightarrow> m k = d k"
      "distinct (map resort_id rs)
         \<longrightarrow> (\<forall>r\<in>set rs. \<forall>v. fetch r = Inr v \<longrightarrow> m (resort_id r) = Some v)"
      by blast
    have step: "collect (gather fetch (r # rs)) d = collect (gather fetch rs) d"
      using Inl e by (simp add: gather_def)
    have "{x \<in> set (r # rs). \<exists>v. fetch x = Inr v} = {x \<in> set rs. \<exists>v. fetch x = Inr v}"
      using Inl by auto
    with m step Inl show ?thesis by auto
  next
    case (Inr v)
    let ?d = "d(resort_id r \<mapsto> v)"
    from Cons.IH [OF tl, of ?d] obtain m where m:
      "collect (gather fetch rs) ?d = Inr m"
      "dom m = dom ?d \<union> resort_id ` {r \<in> set rs. \<exists>v. fetch r = Inr v}"
      "\<forall>k. k \<notin> resort_id ` set rs \<longrightarrow> m k = ?d k"
      "distinct (map resort_id rs)
         \<longrightarrow> (\<forall>r\<in>set rs. \<forall>v. fetch r = Inr v \<longrightarrow> m (resort_id r) = Some v)"
      by blast
    have step: "collect (gather fetch (r # rs)) d = collect (gather fetch rs) ?d"
      using Inr by (simp add: gather_def)
    have set_eq: "{x \<in> set (r # rs). \<exists>v. fetch x = Inr v}
                    = insert r {x \<in> set rs. \<exists>v. fetch x = Inr v}"
      using Inr by auto
    have c1: "collect (gather fetch (r # rs)) d = Inr m" using step m(1) by simp
    have c2: "dom m = dom d \<union> resort_id ` {x \<in> set (r # rs). \<exists>v. fetch x = Inr v}"
      using m(2) set_eq by auto
    have c3: "\<forall>k. k \<notin> resort_id ` set (r # rs) \<longrightarrow> m k = d k"
      using m(3) by auto
    have c4: "distinct (map resort_id (r # rs))
         \<longrightarrow> (\<forall>x\<in>set (r # rs). \<forall>v. fetch x = Inr v \<longrightarrow> m (resort_id x) = Some v)"
    proof
      assume dist: "distinct (map resort_id (r # rs))"
      then have notin: "resort_id r \<notin> resort_id ` set rs" and dtl: "distinct (map resort_id rs)"
        by auto
      from notin m(3) have "m (resort_id r) = Some v" by simp
      with m(4) dtl Inr show "\<forall>x\<in>set (r # rs). \<forall>v. fetch x = Inr v \<longrightarrow> m (resort_id x) = Some v"
        by auto
    qed
    from c1 c2 c3 c4 show ?thesis by blast
  qed
qed

text \<open>
  C4, as the claim states it, fails: a result that is an exception is logged and skipped,
  so the resort whose fetch raised gets no entry at all. Over five resorts with one
  failure the dictionary returned has four entries, not five.
\<close>

theorem failed_fetch_leaves_no_entry:
  "get_forecasts_batch failing_fetch five_resorts
     = Inr [''anzere'' \<mapsto> Some snowy_forecast, ''verbier'' \<mapsto> Some snowy_forecast,
            ''nax'' \<mapsto> Some snowy_forecast, ''ovronnaz'' \<mapsto> Some snowy_forecast]
   \<and> card (dom [''anzere'' \<mapsto> Some snowy_forecast, ''verbier'' \<mapsto> Some snowy_forecast,
                 ''nax'' \<mapsto> Some snowy_forecast, ''ovronnaz'' \<mapsto> Some snowy_forecast]) = 4
   \<and> length five_resorts = 5"
  by (simp add: get_forecasts_batch_def gather_def failing_fetch_def five_resorts_def
      anzere_def verbier_def crans_def nax_def ovronnaz_def sample_resort_def)

text \<open>
  C4, amended. If the fetch of exactly one resort raises an \<open>Exception\<close> and the resort ids
  are distinct, \<open>get_forecasts_batch\<close> over N resorts does not raise and returns a
  dictionary with N - 1 entries: every resort whose fetch returned has its result under
  its id, and the failed resort has no entry, so that \<open>.get\<close> of its id gives \<open>None\<close>.
\<close>

theorem batch_isolation:
  assumes dist: "distinct (map resort_id resorts)"
      and bad: "bad \<in> set resorts"
      and raises: "fetch bad = Inl (PyException msg)"
      and others: "\<forall>r\<in>set resorts. r \<noteq> bad \<longrightarrow> (\<exists>v. fetch r = Inr v)"
  shows "\<exists>forecasts. get_forecasts_batch fetch resorts = Inr forecasts
           \<and> card (dom forecasts) = length resorts - 1
           \<and> forecasts (resort_id bad) = None
           \<and> dict_get forecasts (resort_id bad) = None
           \<and> (\<forall>r\<in>set resorts. \<forall>v. fetch r = Inr v \<longrightarrow> forecasts (resort_id r) = Some v)"
proof -
  have noBase: "\<forall>r\<in>set resorts. \<forall>m. fetch r \<noteq> Inl (PyBaseException m)"
    using raises others by (metis Inl_Inr_False py_error.distinct(1) sum.inject(1))
  from collect_gather [OF noBase, of Map.empty] obtain m where m:
    "collect (gather fetch resorts) Map.empty = Inr m"
    "dom m = resort_id ` {r \<in> set resorts. \<exists>v. fetch r = Inr v}"
    "distinct (map resort_id resorts)
       \<longrightarrow> (\<forall>r\<in>set resorts. \<forall>v. fetch r = Inr v \<longrightarrow> m (resort_id r) = Some v)"
    by auto
  have ok: "{r \<in> set resorts. \<exists>v. fetch r = Inr v} = set resorts - {bad}"
    using raises others by auto
  have inj: "inj_on resort_id (set resorts)"
    using dist by (simp add: distinct_map)
  have "card (dom m) = card (set resorts - {bad})"
    unfolding m(2) ok using inj by (intro card_image) (auto simp: inj_on_def)
  also have "\<dots> = length resorts - 1"
    using bad dist by (simp add: distinct_card distinct_map)
  finally have card: "card (dom m) = length resorts - 1" .
  have "resort_id bad \<notin> dom m"
    unfolding m(2) ok using inj bad by (auto simp: inj_on_def)
  then have none: "m (resort_id bad) = None" by auto
  then have dg: "dict_get m (resort_id bad) = None" by (simp add: dict_get_def)
  from m(1) card none dg m(3) dist show ?thesis
    by (auto simp: get_forecasts_batch_def)
qed

lemma five_ids: "map resort_id five_resorts = [''anzere'', ''verbier'', ''crans'', ''nax'', ''ovronnaz'']"
  by (simp add: five_resorts_def anzere_def verbier_def crans_def nax_def
      ovronnaz_def sample_resort_def)

text \<open>C4, amended, at five resorts where the fetch for Crans raises.\<close>

theorem batch_isolation_witness:
  "\<exists>forecasts. get_forecasts_batch failing_fetch five_resorts = Inr forecasts
     \<and> card (dom forecasts) = 4
     \<and> forecasts ''crans'' = None
     \<and> dict_get forecasts ''crans'' = None
     \<and> forecasts ''verbier'' = Some (Some snowy_forecast)"
proof -
  have dist: "distinct (map resort_id five_resorts)" by (simp add: five_ids)
  have bad: "crans \<in> set five_resorts" by (simp add: five_resorts_def)
  have rid: "resort_id crans = ''crans''" "resort_id verbier = ''verbier''"
    by (simp_all add: crans_def verbier_def sample_resort_def)
  have raises: "failing_fetch crans = Inl (PyException ''connection reset'')"
    by (simp add: failing_fetch_def rid)
  have others: "\<forall>r\<in>set five_resorts. r \<noteq> crans \<longrightarrow> (\<exists>v. failing_fetch r = Inr v)"
    by (simp add: five_resorts_def failing_fetch_def anzere_def verbier_def crans_def
        nax_def ovronnaz_def sample_resort_def)
  have big: "verbier \<in> set five_resorts" "failing_fetch verbier = Inr (Some snowy_forecast)"
    by (simp_all add: five_resorts_def failing_fetch_def rid)
  have len: "length five_resorts = 5" by (simp add: five_resorts_def)
  from batch_isolation [OF dist bad raises others] obtain forecasts where f:
    "get_forecasts_batch failing_fetch five_resorts = Inr forecasts"
    "card (dom forecasts) = length five_resorts - 1"
    "forecasts (resort_id crans) = None"
    "dict_get forecasts (resort_id crans) = None"
    "\<forall>r\<in>set five_resorts. \<forall>v. failing_fetch r = Inr v \<longrightarrow> forecasts (resort_id r) = Some v"
    by blast
  from f(5) big have "forecasts (resort_id verbier) = Some (Some snowy_forecast)" by blast
  with f(1-4) len rid show ?thesis by auto
qed


section \<open>Failure of the narrative summarizer\<close>

text \<open>
  C5, as the claim states it, fails: \<open>generate_recommendations\<close> awaits the summarizer
  outside any \<open>try\<close>, so the exception of a summarizer that raises reaches the caller.
\<close>

theorem orchestrator_does_not_catch:
  "generate_recommendations (\<lambda>recs weekend. Inl (PyException ''timeout'')) [verbier]
     snowy_weather sample_snow sample_transport 5 ''Jan 10 - Jan 11''
   = Inl (PyException ''timeout'')"
  by (simp add: generate_recommendations_def)

text \<open>
  C5, amended. When the request to the language model raises an \<open>Exception\<close>, it is the
  summarizer itself, \<open>generate_recommendation_summary\<close>, that catches it and returns the
  fallback summary built from the name, the score, the weather condition text and the
  travel time of the top recommendation (or the fixed apology when there is no
  recommendation). \<open>generate_recommendations\<close> has no handler of its own and returns that
  text as \<open>ai_summary\<close>, so with this summarizer the failure does not reach the caller.
\<close>

theorem summarizer_catches_failure:
  assumes "completion recs weekend = Inl (PyException msg)"
      and "recs = slice_to n (rank_recommendations wd sd td resorts)"
  shows "generate_recommendation_summary completion recs weekend
           = Inr (if recs = [] then
                    ''Unfortunately, I couldn't generate recommendations at this time. ''
                    @ ''Please try again later.''
                  else generate_fallback_summary recs)
         \<and> generate_recommendations (generate_recommendation_summary completion) resorts
             wd sd td n weekend
           = Inr \<lparr>recommendations = recs,
                  ai_summary =
                    (if recs = [] then
                       ''Unfortunately, I couldn't generate recommendations at this time. ''
                       @ ''Please try again later.''
                     else generate_fallback_summary recs),
                  target_weekend = weekend\<rparr>
         \<and> generate_fallback_summary (best # others)
           = ''Based on current conditions, '' @ name (resort best)
             @ '' looks like the best choice with a score of '' @ fmt1 (score best) @ ''/10. ''
             @ (case weather_forecast best of
                  None \<Rightarrow> []
                | Some forecast \<Rightarrow> ''Weather forecast shows '' @ conditions forecast @ ''. '')
             @ (case journey best of
                  None \<Rightarrow> []
                | Some j \<Rightarrow>
                    ''Travel time from Geneva is approximately ''
                    @ str_int (duration_minutes j div 60) @ ''h ''
                    @ str_int (duration_minutes j mod 60) @ ''min.'')"
proof -
  have summary: "generate_recommendation_summary completion recs weekend
           = Inr (if recs = [] then
                    ''Unfortunately, I couldn't generate recommendations at this time. ''
                    @ ''Please try again later.''
                  else generate_fallback_summary recs)"
    using assms(1) by (simp add: generate_recommendation_summary_def)
  have "generate_recommendations (generate_recommendation_summary completion) resorts
             wd sd td n weekend
        = (case generate_recommendation_summary completion recs weekend of
             Inl e \<Rightarrow> Inl e
           | Inr text \<Rightarrow>
               Inr \<lparr>recommendations = recs, ai_summary = text, target_weekend = weekend\<rparr>)"
    unfolding assms(2) by (simp add: generate_recommendations_def Let_def)
  with summary show ?thesis
    by (simp add: generate_fallback_summary_def)
qed

text \<open>C5, amended, at one resort and a language model that times out.\<close>

theorem summarizer_catches_failure_witness:
  "generate_recommendations
     (generate_recommendation_summary (\<lambda>recs weekend. Inl (PyException ''timeout'')))
     [verbier] snowy_weather sample_snow sample_transport 5 ''Jan 10 - Jan 11''
   = Inr \<lparr>recommendations =
            [build_recommendation snowy_weather sample_snow sample_transport verbier],
          ai_summary =
            ''Based on current conditions, Verbier looks like the best choice ''
            @ ''with a score of 10.0/10. Weather forecast shows light snow. ''
            @ ''Travel time from Geneva is approximately 1h 35min.'',
          target_weekend = ''Jan 10 - Jan 11''\<rparr>"
proof -
  let ?entry = "build_recommendation snowy_weather sample_snow sample_transport verbier"
  have rk: "[?entry] = slice_to 5 (rank_recommendations snowy_weather sample_snow sample_transport
                  [verbier])"
    by (simp add: rank_recommendations_def sort_reverse_def slice_to_def)
  have fb: "generate_fallback_summary [?entry]
            = ''Based on current conditions, Verbier looks like the best choice ''
            @ ''with a score of 10.0/10. Weather forecast shows light snow. ''
            @ ''Travel time from Geneva is approximately 1h 35min.''"
    by code_simp
  from summarizer_catches_failure [of "\<lambda>recs weekend. Inl (PyException ''timeout'')"
      "[?entry]" "''Jan 10 - Jan 11''" "''timeout''" 5 snowy_weather sample_snow sample_transport
      "[verbier]", OF refl rk]
  show ?thesis by (simp only: fb list.simps if_False)
qed


section \<open>Ranking\<close>

lemma sort_reverse_mset: "mset (sort_reverse f xs) = mset xs"
  by (simp add: sort_reverse_def)

lemma sort_reverse_set: "set (sort_reverse f xs) = set xs"
  by (simp add: sort_reverse_def)

lemma set_slice_to: "set (slice_to n xs) \<subseteq> set xs"
  by (auto simp: slice_to_def dest: in_set_takeD)
lemma sort_reverse_sorted: "sorted_wrt (\<lambda>a b. f b \<le> f a) (sort_reverse f xs)"
proof -
  have "sorted (map f (sort_key f (rev xs)))" by simp
  then have "sorted_wrt (\<lambda>a b. f a \<le> f b) (sort_key f (rev xs))"
    by (simp add: sorted_wrt_map)
  then show ?thesis by (simp add: sort_reverse_def sorted_wrt_rev)
qed

lemma sort_reverse_stable:
  "filter (\<lambda>x. f x = k) (sort_reverse f xs) = filter (\<lambda>x. f x = k) xs"
proof -
  have "filter (\<lambda>x. f x = k) (sort_reverse f xs)
          = rev (filter (\<lambda>x. f x = k) (sort_key f (rev xs)))"
    by (simp add: sort_reverse_def rev_filter)
  also have "\<dots> = rev (filter (\<lambda>x. f x = k) (rev xs))"
    by (simp only: sort_key_stable)
  also have "\<dots> = filter (\<lambda>x. f x = k) xs"
    by (simp add: rev_filter)
  finally show ?thesis .
qed

text \<open>
  C6. For a count that is not negative and a summarizer that returns,
  \<open>generate_recommendations\<close> returns the first \<open>count\<close> elements of the ranked list. The
  ranked list is a rearrangement of the per-resort recommendations, in descending order of
  total score, and among the recommendations with any one total score the order of the
  resort list is kept: the score is the only key.
\<close>

theorem ranking_stable_top_n:
  assumes "0 \<le> n"
      and "summarize (take (nat n) (rank_recommendations wd sd td resorts)) weekend = Inr summary"
  shows "generate_recommendations summarize resorts wd sd td n weekend
           = Inr \<lparr>recommendations = take (nat n) (rank_recommendations wd sd td resorts),
                  ai_summary = summary, target_weekend = weekend\<rparr>
         \<and> mset (rank_recommendations wd sd td resorts)
             = mset (map (build_recommendation wd sd td) resorts)
         \<and> sorted_wrt (\<lambda>a b. score b \<le> score a) (rank_recommendations wd sd td resorts)
         \<and> (\<forall>k. filter (\<lambda>x. score x = k) (rank_recommendations wd sd td resorts)
                  = filter (\<lambda>x. score x = k) (map (build_recommendation wd sd td) resorts))"
  using assms
  by (simp add: generate_recommendations_def slice_to_def rank_recommendations_def
      sort_reverse_mset sort_reverse_sorted sort_reverse_stable)

text \<open>
  C6 at three resorts with totals 6.5 (Anzere), 9.0 (Verbier) and 6.5 (Crans), in this
  order, and count 2: Verbier comes first, then Anzere, the first of the two tied resorts.
\<close>

theorem ranking_stable_top_n_witness:
  "generate_recommendations (\<lambda>recs weekend. Inr ''Go to Verbier.'')
     [anzere, verbier, crans] no_weather sample_snow sample_transport 2
     ''Jan 10 - Jan 11''
   = Inr \<lparr>recommendations =
            take 2 (rank_recommendations no_weather sample_snow sample_transport
                      [anzere, verbier, crans]),
          ai_summary = ''Go to Verbier.'', target_weekend = ''Jan 10 - Jan 11''\<rparr>
   \<and> map (\<lambda>r. (resort_id (resort r), score r))
        (take 2 (rank_recommendations no_weather sample_snow sample_transport
                   [anzere, verbier, crans]))
     = [(''verbier'', 9.0), (''anzere'', 6.5)]"
proof -
  have n: "(0::int) \<le> 2" by simp
  have ex: "map (\<lambda>r. (resort_id (resort r), score r))
        (take 2 (rank_recommendations no_weather sample_snow sample_transport
                   [anzere, verbier, crans]))
     = [(''verbier'', 9.0), (''anzere'', 6.5)]"
    by code_simp
  from ranking_stable_top_n [OF n, of "\<lambda>recs weekend. Inr ''Go to Verbier.''"
      no_weather sample_snow sample_transport "[anzere, verbier, crans]"
      "''Jan 10 - Jan 11''" "''Go to Verbier.''", OF refl] ex
  show ?thesis by simp
qed


section \<open>Truncation of highlights and concerns\<close>

lemma generate_recommendations_members:
  assumes "generate_recommendations summarize resorts wd sd td n weekend = Inr resp"
  shows "set (recommendations resp) \<subseteq> build_recommendation wd sd td ` set resorts"
proof -
  from assms have "recommendations resp = slice_to n (rank_recommendations wd sd td resorts)"
    by (auto simp: generate_recommendations_def Let_def split: sum.splits)
  then have "set (recommendations resp) \<subseteq> set (rank_recommendations wd sd td resorts)"
    using set_slice_to by metis
  then show ?thesis by (simp add: rank_recommendations_def sort_reverse_set)
qed

lemma build_recommendation_fields:
  assumes "score_resort (dict_get wd (resort_id r)) (dict_get sd (resort_id r))
             (dict_get td (resort_id r)) (Some r) = (tot, ws, ss, ts, zs, hs, cs)"
  shows "resort (build_recommendation wd sd td r) = r"
    and "highlights (build_recommendation wd sd td r) = take 5 hs"
    and "concerns (build_recommendation wd sd td r) = take 5 cs"
  using assms by (simp_all add: build_recommendation_def slice_to_def Let_def)

lemma build_recommendation_resort: "resort (build_recommendation wd sd td r) = r"
  by (cases "score_resort (dict_get wd (resort_id r)) (dict_get sd (resort_id r))
             (dict_get td (resort_id r)) (Some r)") (simp add: build_recommendation_fields)

text \<open>
  C9. Let \<open>hs\<close> and \<open>cs\<close> be the concatenated highlights and concerns that \<open>score_resort\<close>
  computes for a resort. The recommendation for that resort in the result of
  \<open>generate_recommendations\<close> holds the first five entries of each list (all of them when
  there are at most five), while \<open>get_resort_details\<close>, given the same data for the same
  resort, returns a recommendation with the complete lists.
\<close>

theorem truncated_in_list_full_in_details:
  assumes sr: "score_resort (dict_get wd (resort_id r)) (dict_get sd (resort_id r))
                 (dict_get td (resort_id r)) (Some r) = (tot, ws, ss, ts, zs, hs, cs)"
      and gen: "generate_recommendations summarize resorts wd sd td n weekend = Inr resp"
      and mem: "entry \<in> set (recommendations resp)" "resort entry = r"
      and found: "get_resort_by_id resorts (resort_id r) = Some r"
      and same: "weather_of r = dict_get wd (resort_id r)" "snow_of r = dict_get sd (resort_id r)"
                "transport_of r = dict_get td (resort_id r)"
  shows "highlights entry = take 5 hs \<and> concerns entry = take 5 cs
         \<and> length (highlights entry) = min 5 (length hs)
         \<and> length (concerns entry) = min 5 (length cs)
         \<and> (\<exists>full. get_resort_details resorts weather_of snow_of transport_of (resort_id r)
                      = Some full
                    \<and> highlights full = hs \<and> concerns full = cs)"
proof -
  from generate_recommendations_members [OF gen] mem(1)
  obtain r' where r': "r' \<in> set resorts" "entry = build_recommendation wd sd td r'" by auto
  with mem(2) have "r' = r" by (simp add: build_recommendation_resort)
  with r' have entry: "entry = build_recommendation wd sd td r" by simp
  have h: "highlights entry = take 5 hs" and c: "concerns entry = take 5 cs"
    using build_recommendation_fields [OF sr] entry by simp_all
  have d: "\<exists>full. get_resort_details resorts weather_of snow_of transport_of (resort_id r)
                      = Some full
                    \<and> highlights full = hs \<and> concerns full = cs"
    using found same sr by (simp add: get_resort_details_def Let_def)
  from h c d show ?thesis by (simp add: min.commute)
qed

text \<open>
  C9 at Verbier with a snowy forecast: ten highlights, of which the list view keeps five
  and the detail view all.
\<close>

theorem truncated_in_list_full_in_details_witness:
  "highlights (build_recommendation snowy_weather sample_snow sample_transport verbier)
     = take 5 ten_highlights
   \<and> length (highlights (build_recommendation snowy_weather sample_snow sample_transport
                 verbier)) = 5
   \<and> (\<exists>full. get_resort_details [verbier] (\<lambda>r. dict_get snowy_weather (resort_id r))
                 (\<lambda>r. dict_get sample_snow (resort_id r))
                 (\<lambda>r. dict_get sample_transport (resort_id r)) ''verbier'' = Some full
              \<and> highlights full = ten_highlights \<and> concerns full = [])"
proof -
  let ?entry = "build_recommendation snowy_weather sample_snow sample_transport verbier"
  have rid: "resort_id verbier = ''verbier''"
    by (simp add: verbier_def sample_resort_def)
  have sr: "score_resort (dict_get snowy_weather (resort_id verbier))
              (dict_get sample_snow (resort_id verbier))
              (dict_get sample_transport (resort_id verbier)) (Some verbier)
            = (10, 10, 10, 10, 10, ten_highlights, [])"
    by code_simp
  have rk: "rank_recommendations snowy_weather sample_snow sample_transport [verbier] = [?entry]"
    by (simp add: rank_recommendations_def sort_reverse_def)
  have gen: "generate_recommendations (\<lambda>recs weekend. Inr ''Go to Verbier.'') [verbier]
               snowy_weather sample_snow sample_transport 5 ''Jan 10 - Jan 11''
             = Inr \<lparr>recommendations = [?entry], ai_summary = ''Go to Verbier.'',
                    target_weekend = ''Jan 10 - Jan 11''\<rparr>"
    by (simp add: generate_recommendations_def rk slice_to_def)
  have mem: "?entry \<in> set (recommendations \<lparr>recommendations = [?entry],
               ai_summary = ''Go to Verbier.'', target_weekend = ''Jan 10 - Jan 11''\<rparr>)"
    by simp
  have res: "resort ?entry = verbier" by (rule build_recommendation_resort)
  have found: "get_resort_by_id [verbier] (resort_id verbier) = Some verbier"
    by simp
  have len: "length ten_highlights = 10" by (simp add: ten_highlights_def)
  have same:
    "(\<lambda>r. dict_get snowy_weather (resort_id r)) verbier
       = dict_get snowy_weather (resort_id verbier)"
    "(\<lambda>r. dict_get sample_snow (resort_id r)) verbier
       = dict_get sample_snow (resort_id verbier)"
    "(\<lambda>r. dict_get sample_transport (resort_id r)) verbier
       = dict_get sample_transport (resort_id verbier)"
    by simp_all
  from truncated_in_list_full_in_details
         [where weather_of = "\<lambda>r. dict_get snowy_weather (resort_id r)"
            and snow_of = "\<lambda>r. dict_get sample_snow (resort_id r)"
            and transport_of = "\<lambda>r. dict_get sample_transport (resort_id r)",
          OF sr gen mem res found same]
       len rid
  show ?thesis by simp
qed

end
